theory Spec2Isabelle
  imports Complex_Main
begin

section \<open>Python values used by \<^verbatim>\<open>streamlit_app.py\<close>\<close>

text \<open>
  A Python \<^verbatim>\<open>str\<close> is a sequence of Unicode code points, so it is modelled as a list of
  natural numbers (one per code point). ASCII literals of the script are written with
  \<open>py_of\<close>; other code points are written as numbers.
\<close>

type_synonym py_str = "nat list"

definition py_of :: "string \<Rightarrow> py_str" where
  "py_of s = map of_char s"

text \<open>The separator of \<^verbatim>\<open>user_input.split("\n")\<close>: the line feed, U+000A.\<close>

definition LF :: nat where
  "LF = 10"

text \<open>
  The code points that \<^verbatim>\<open>str.strip()\<close> removes when called without an argument: the
  ones for which \<^verbatim>\<open>str.isspace\<close> holds (U+0009..U+000D, U+001C..U+0020, U+0085, U+00A0,
  U+1680, U+2000..U+200A, U+2028, U+2029, U+202F, U+205F, U+3000).
\<close>

definition isspace :: "nat \<Rightarrow> bool" where
  "isspace c = ((9 \<le> c \<and> c \<le> 13) \<or> (28 \<le> c \<and> c \<le> 32) \<or> c = 133 \<or> c = 160
     \<or> c = 5760 \<or> (8192 \<le> c \<and> c \<le> 8202) \<or> c = 8232 \<or> c = 8233 \<or> c = 8239
     \<or> c = 8287 \<or> c = 12288)"

text \<open>\<^verbatim>\<open>doc.strip()\<close>: whitespace is removed from the left end, then from the right end.\<close>

definition strip :: "py_str \<Rightarrow> py_str" where
  "strip s = rev (dropWhile isspace (rev (dropWhile isspace s)))"

text \<open>
  \<^verbatim>\<open>s.split(sep)\<close> for a one-character separator: the text is scanned from the left,
  \<open>cur\<close> holds the piece read so far, and every separator closes a piece. The text
  without separator gives one piece, the empty text gives \<^verbatim>\<open>['']\<close>.
\<close>

fun split_from :: "nat \<Rightarrow> py_str \<Rightarrow> py_str \<Rightarrow> py_str list" where
  "split_from sep cur [] = [cur]"
| "split_from sep cur (c # cs) =
     (if c = sep then cur # split_from sep [] cs else split_from sep (cur @ [c]) cs)"

definition py_split :: "py_str \<Rightarrow> nat \<Rightarrow> py_str list" where
  "py_split s sep = split_from sep [] s"

text \<open>\<^verbatim>\<open>str(n)\<close> for a non-negative integer (used by the f-string of line 121).\<close>

fun str_nat :: "nat \<Rightarrow> py_str" where
  "str_nat n = (if n < 10 then [48 + n] else str_nat (n div 10) @ [48 + n mod 10])"

declare str_nat.simps [simp del]

definition str_int :: "int \<Rightarrow> py_str" where
  "str_int i = (if i < 0 then 45 # str_nat (nat (- i)) else str_nat (nat i))"

section \<open>Line 136: the neighbour count handed to UMAP\<close>

text \<open>
  \<^verbatim>\<open>n_neighbors = max(2, min(n_neighbors_max, len(documents) - 2))\<close>.
  Python integers are unbounded, and \<^verbatim>\<open>len(documents) - 2\<close> is negative for fewer than
  two documents, so the arithmetic is over \<open>int\<close>.
\<close>

definition n_neighbors :: "int \<Rightarrow> py_str list \<Rightarrow> int" where
  "n_neighbors n_neighbors_max documents =
     max 2 (min n_neighbors_max (int (length documents) - 2))"

text \<open>
  The specification's wording of the same value: clamp the configured maximum into the
  range from \<open>lo\<close> to \<open>hi\<close>, where the lower bound wins when the range is empty.
\<close>

definition spec_clamp :: "int \<Rightarrow> int \<Rightarrow> int \<Rightarrow> int" where
  "spec_clamp x lo hi = (if hi < lo then lo else if x < lo then lo else if hi < x then hi else x)"

section \<open>Lines 95 and 119: trimming documents and dropping the blank ones\<close>

text \<open>
  \<^verbatim>\<open>[doc.strip() for doc in documents if doc.strip()]\<close>: the comprehension tests the
  stripped text for truth (non-empty) first and then collects the stripped text.
\<close>

definition strip_documents :: "py_str list \<Rightarrow> py_str list" where
  "strip_documents documents = map strip (filter (\<lambda>doc. strip doc \<noteq> []) documents)"

text \<open>
  The specification's wording of the manual path: the lines of the text (the pieces
  between line feeds), each one trimmed, and then the empty ones dropped.
\<close>

function spec_lines :: "py_str \<Rightarrow> py_str list" where
  "spec_lines s =
     (if LF \<in> set s
      then takeWhile (\<lambda>c. c \<noteq> LF) s # spec_lines (tl (dropWhile (\<lambda>c. c \<noteq> LF) s))
      else [s])"
  by pat_completeness auto
termination
proof (relation "measure length")
  show "wf (measure length)" by simp
next
  fix s :: py_str
  assume "LF \<in> set s"
  then have "dropWhile (\<lambda>c. c \<noteq> LF) s \<noteq> []"
    by (simp add: dropWhile_eq_Nil_conv)
  then have "length (tl (dropWhile (\<lambda>c. c \<noteq> LF) s)) < length (dropWhile (\<lambda>c. c \<noteq> LF) s)"
    by (cases "dropWhile (\<lambda>c. c \<noteq> LF) s") simp_all
  also have "\<dots> \<le> length s"
    by (rule length_dropWhile_le)
  finally show "(tl (dropWhile (\<lambda>c. c \<noteq> LF) s), s) \<in> measure length"
    by simp
qed

declare spec_lines.simps [simp del]

definition spec_trim_nonempty :: "py_str list \<Rightarrow> py_str list" where
  "spec_trim_nonempty entries = filter (\<lambda>d. d \<noteq> []) (map strip entries)"

definition spec_manual_documents :: "py_str \<Rightarrow> py_str list" where
  "spec_manual_documents text = spec_trim_nonempty (spec_lines text)"

section \<open>The uploaded table (pandas)\<close>

text \<open>
  A cell of the table that \<^verbatim>\<open>pd.read_csv\<close> returns. \<open>Cell_nan\<close> is the missing value.
  The script only tests cells for being missing and converts them with \<^verbatim>\<open>str\<close>, so a
  float other than NaN is represented by the text that \<^verbatim>\<open>str\<close> gives for it.
\<close>

datatype cell = Cell_nan | Cell_str py_str | Cell_int int | Cell_bool bool | Cell_float py_str

text \<open>A table is the list of its columns, in header order, each with its name.\<close>

type_synonym data_frame = "(py_str \<times> cell list) list"

text \<open>\<^verbatim>\<open>df.head()\<close>: the first five rows.\<close>

definition head :: "data_frame \<Rightarrow> data_frame" where
  "head df = map (\<lambda>(name, col). (name, take 5 col)) df"

text \<open>\<^verbatim>\<open>df[column_name]\<close>: \<open>None\<close> stands for the \<^verbatim>\<open>KeyError\<close> of an absent column.\<close>

definition getitem :: "data_frame \<Rightarrow> py_str \<Rightarrow> cell list option" where
  "getitem df column_name = map_of df column_name"

definition dropna :: "cell list \<Rightarrow> cell list" where
  "dropna col = filter (\<lambda>v. v \<noteq> Cell_nan) col"

text \<open>\<^verbatim>\<open>.astype(str).tolist()\<close>: \<^verbatim>\<open>str\<close> applied to every value.\<close>

fun str_cell :: "cell \<Rightarrow> py_str" where
  "str_cell Cell_nan = py_of ''nan''"
| "str_cell (Cell_str s) = s"
| "str_cell (Cell_int i) = str_int i"
| "str_cell (Cell_bool b) = (if b then py_of ''True'' else py_of ''False'')"
| "str_cell (Cell_float r) = r"

definition astype_str :: "cell list \<Rightarrow> py_str list" where
  "astype_str col = map str_cell col"


section \<open>Widget values and library objects\<close>

datatype metric = Cosine | Euclidean | Manhattan

datatype language = English | Multilingual

text \<open>
  The values the widgets return in one run of the script: the sidebar controls
  (lines 17 to 79), the text area, the uploaded file as the table \<^verbatim>\<open>pd.read_csv\<close>
  makes of it, the column select box and the button.
\<close>

record widgets =
  n_neighbors_max :: int
  n_components :: int
  min_dist :: real
  metric :: metric
  min_topic_size :: int
  language :: language
  top_n_topics :: int
  show_all_viz :: bool
  user_input :: py_str
  uploaded_file :: "data_frame option"
  column_name :: "py_str option"
  analyze_button :: bool

text \<open>The keyword arguments of \<^verbatim>\<open>UMAP(...)\<close> and of \<^verbatim>\<open>BERTopic(...)\<close>.\<close>

record umap =
  umap_n_neighbors :: int
  umap_n_components :: int
  umap_min_dist :: real
  umap_metric :: metric
  umap_random_state :: int
  umap_init :: py_str

record bertopic =
  bt_umap_model :: umap
  bt_verbose :: bool
  bt_min_topic_size :: int
  bt_language :: language

text \<open>
  The fitted topic model as the script uses it: the rows of \<^verbatim>\<open>get_topic_info()\<close> and the
  four chart methods. A chart method returns the figure (\<open>Inr\<close>) or raises an exception
  that \<^verbatim>\<open>except Exception\<close> catches (\<open>Inl\<close>, with the text \<^verbatim>\<open>str(e)\<close> of the
  exception). The Streamlit calls themselves are taken not to raise.
\<close>

record ('row, 'fig) fitted =
  get_topic_info :: "'row list"
  visualize_barchart :: "int \<Rightarrow> py_str + 'fig"
  visualize_hierarchy :: "py_str + 'fig"
  visualize_heatmap :: "py_str + 'fig"
  visualize_topics :: "py_str + 'fig"

text \<open>
  \<^verbatim>\<open>topic_model.fit_transform(documents)\<close> is code of the BERTopic library: it is a
  parameter of the model, from the constructed object and the documents to the fitted
  model or the text of the exception raised.
\<close>

type_synonym ('row, 'fig) fit_transform =
  "bertopic \<Rightarrow> py_str list \<Rightarrow> py_str + ('row, 'fig) fitted"

section \<open>What a run of the script does\<close>

text \<open>
  The run is observed as the list of its Streamlit output calls and library calls, in
  program order. \<open>St_stop\<close> is \<^verbatim>\<open>st.stop()\<close>, which ends the run; \<open>Uncaught_KeyError\<close>
  is a \<^verbatim>\<open>KeyError\<close> that no handler of the script catches, which ends the run too.
\<close>

datatype ('row, 'fig) event =
    St_header py_str
  | St_subheader py_str
  | St_write py_str
  | St_markdown py_str
  | St_success py_str
  | St_info py_str
  | St_warning py_str
  | St_error py_str
  | St_dataframe_csv data_frame
  | St_dataframe_topics "'row list"
  | St_button py_str
  | St_plotly_chart 'fig
  | St_stop
  | Uncaught_KeyError py_str
  | Fit_transform bertopic "py_str list"
  | Get_topic_info
  | Visualize_barchart int
  | Visualize_hierarchy
  | Visualize_heatmap
  | Visualize_topics

record ('row, 'fig) state =
  documents :: "py_str list option"
  source :: "py_str option"
  trace :: "('row, 'fig) event list"

definition emit :: "('row, 'fig) event list \<Rightarrow> ('row, 'fig) state \<Rightarrow> ('row, 'fig) state" where
  "emit es s = s\<lparr>trace := trace s @ es\<rparr>"

text \<open>Lines 84 and 85.\<close>

definition initial :: "('row, 'fig) state" where
  "initial = \<lparr>documents = None, source = None, trace = []\<rparr>"

text \<open>Lines 88 to 96. \<^verbatim>\<open>if user_input:\<close> holds for every text but the empty one.\<close>

definition tab1 :: "widgets \<Rightarrow> ('row, 'fig) state \<Rightarrow> ('row, 'fig) state" where
  "tab1 w s =
     (let s = emit [St_header (py_of ''Input Text''),
                    St_write (py_of
           ''Enter your text data below. Each line will be treated as a separate document.'')] s
      in if user_input w \<noteq> []
         then s\<lparr>documents := Some (strip_documents (py_split (user_input w) LF)),
                source := Some (py_of ''manual'')\<rparr>
         else s)"

text \<open>
  Lines 99 to 121. The result is \<open>Inl\<close> with the final output when the run ends here
  with an uncaught exception, and \<open>Inr\<close> with the state otherwise.
  \<^verbatim>\<open>if column_name:\<close> fails for \<^verbatim>\<open>None\<close> and for the empty name.
\<close>

definition tab2 ::
  "widgets \<Rightarrow> ('row, 'fig) state \<Rightarrow> ('row, 'fig) event list + ('row, 'fig) state" where
  "tab2 w s =
     (let s = emit [St_header (py_of ''Upload CSV File'')] s
      in case uploaded_file w of
           None \<Rightarrow> Inr s
         | Some df \<Rightarrow>
             (let s = emit [St_write (py_of ''Preview of uploaded file:''),
                            St_dataframe_csv (head df)] s
              in case column_name w of
                   None \<Rightarrow> Inr s
                 | Some name \<Rightarrow>
                     if name = [] then Inr s
                     else (case getitem df name of
                             None \<Rightarrow> Inl (trace s @ [Uncaught_KeyError name])
                           | Some col \<Rightarrow>
                               (let docs = strip_documents (astype_str (dropna col))
                                in Inr (emit [St_success (py_of ''Loaded '' @ str_nat (length docs)
                                                @ py_of '' documents from '' @ [39] @ name @ [39])]
                                         (s\<lparr>documents := Some docs,
                                            source := Some (py_of ''csv'')\<rparr>))))))"

text \<open>Lines 136 to 144.\<close>

definition umap_model :: "widgets \<Rightarrow> py_str list \<Rightarrow> umap" where
  "umap_model w docs =
     \<lparr>umap_n_neighbors = n_neighbors (n_neighbors_max w) docs,
      umap_n_components = n_components w,
      umap_min_dist = min_dist w,
      umap_metric = metric w,
      umap_random_state = 42,
      umap_init = py_of ''random''\<rparr>"

text \<open>Lines 145 to 150.\<close>

definition topic_model :: "widgets \<Rightarrow> py_str list \<Rightarrow> bertopic" where
  "topic_model w docs =
     \<lparr>bt_umap_model = umap_model w docs,
      bt_verbose = False,
      bt_min_topic_size = min_topic_size w,
      bt_language = language w\<rparr>"

text \<open>
  One \<^verbatim>\<open>try\<close> block of lines 171 to 209: the subheader, the chart method, then either
  \<^verbatim>\<open>st.plotly_chart(fig)\<close> or, when the method raised, the warning of the handler.
\<close>

definition try_chart ::
  "py_str \<Rightarrow> ('row, 'fig) event \<Rightarrow> py_str + 'fig \<Rightarrow> py_str \<Rightarrow> ('row, 'fig) event list" where
  "try_chart title call result what =
     [St_subheader title, call] @
     (case result of
        Inr fig \<Rightarrow> [St_plotly_chart fig]
      | Inl e \<Rightarrow> [St_warning (py_of ''Could not generate '' @ what @ py_of '': '' @ e)])"

text \<open>Lines 170 to 209.\<close>

definition visualizations :: "widgets \<Rightarrow> ('row, 'fig) fitted \<Rightarrow> ('row, 'fig) event list" where
  "visualizations w m =
     (let topic_info = get_topic_info m
      in if show_all_viz w
         then try_chart (py_of ''Topic Frequency'')
                (Visualize_barchart (min (top_n_topics w) (int (length topic_info) - 1)))
                (visualize_barchart m (min (top_n_topics w) (int (length topic_info) - 1)))
                (py_of ''topic frequency chart'')
            @ try_chart (py_of ''Topic Hierarchy'') Visualize_hierarchy
                (visualize_hierarchy m) (py_of ''hierarchy chart'')
            @ try_chart (py_of ''Topic Similarity Heatmap'') Visualize_heatmap
                (visualize_heatmap m) (py_of ''heatmap'')
            @ try_chart (py_of ''Top Words per Topic'') Visualize_topics
                (visualize_topics m) (py_of ''topic words chart'')
         else try_chart (py_of ''Topic Frequency'')
                (Visualize_barchart (min (top_n_topics w) (int (length topic_info) - 1)))
                (visualize_barchart m (min (top_n_topics w) (int (length topic_info) - 1)))
                (py_of ''topic frequency chart''))"

text \<open>Lines 131 to 211: what the run does once the button has been pressed.\<close>

definition analysis ::
  "('row, 'fig) fit_transform \<Rightarrow> widgets \<Rightarrow> py_str list \<Rightarrow> ('row, 'fig) event list" where
  "analysis fit w docs =
     [St_header (py_of ''Step 1: Initialize BERTopic''),
      St_write (py_of ''Initializing the BERTopic model...''),
      St_header (py_of ''Step 2: Fit the Model''),
      St_write (py_of ''Fitting the BERTopic model to your data...''),
      Fit_transform (topic_model w docs) docs] @
     (case fit (topic_model w docs) docs of
        Inl e \<Rightarrow> [St_error (py_of ''Error fitting model: '' @ e), St_stop]
      | Inr m \<Rightarrow>
          [St_header (py_of ''Step 3: Extracted Topics''),
           St_write (py_of ''The following topics were extracted:''),
           Get_topic_info,
           St_dataframe_topics (get_topic_info m),
           St_header (py_of ''Step 4: Visualizations'')] @
          visualizations w m @
          [St_success (py_of ''BERTopic analysis complete!'')])"

text \<open>Lines 213 to 216; the first message starts with U+1F446.\<close>

definition no_documents_prompt :: "py_str option \<Rightarrow> ('row, 'fig) event" where
  "no_documents_prompt src =
     (if src = None
      then St_info (128070 # py_of
        '' Enter text manually or upload a CSV file to get started (minimum 3-5 documents recommended).'')
      else St_warning (py_of
        ''Please enter at least one valid document (minimum 3-5 recommended for better results).''))"

text \<open>
  Lines 124 to 216. \<^verbatim>\<open>if documents:\<close> fails for \<^verbatim>\<open>None\<close> and for the empty list.
\<close>

definition analysis_section ::
  "('row, 'fig) fit_transform \<Rightarrow> widgets \<Rightarrow> ('row, 'fig) state \<Rightarrow> ('row, 'fig) event list" where
  "analysis_section fit w s =
     (case documents s of
        None \<Rightarrow> trace s @ [no_documents_prompt (source s)]
      | Some [] \<Rightarrow> trace s @ [no_documents_prompt (source s)]
      | Some (d # ds) \<Rightarrow>
          trace s @ [St_markdown (py_of ''---''), St_button (py_of ''Start Analysis'')] @
          (if analyze_button w then analysis fit w (d # ds) else []))"

text \<open>The run from line 84 on: both tabs, then the analysis section.\<close>

definition script :: "('row, 'fig) fit_transform \<Rightarrow> widgets \<Rightarrow> ('row, 'fig) event list" where
  "script fit w =
     (case tab2 w (tab1 w initial) of
        Inl out \<Rightarrow> out
      | Inr s \<Rightarrow> analysis_section fit w s)"

subsection \<open>Kinds of events\<close>

definition is_warning :: "('row, 'fig) event \<Rightarrow> bool" where
  "is_warning e = (case e of St_warning _ \<Rightarrow> True | _ \<Rightarrow> False)"

definition is_error :: "('row, 'fig) event \<Rightarrow> bool" where
  "is_error e = (case e of St_error _ \<Rightarrow> True | _ \<Rightarrow> False)"

definition is_summary_table :: "('row, 'fig) event \<Rightarrow> bool" where
  "is_summary_table e = (case e of St_dataframe_topics _ \<Rightarrow> True | _ \<Rightarrow> False)"

definition is_plotly_chart :: "('row, 'fig) event \<Rightarrow> bool" where
  "is_plotly_chart e = (case e of St_plotly_chart _ \<Rightarrow> True | _ \<Rightarrow> False)"

definition is_barchart_call :: "('row, 'fig) event \<Rightarrow> bool" where
  "is_barchart_call e = (case e of Visualize_barchart _ \<Rightarrow> True | _ \<Rightarrow> False)"

definition is_chart_call :: "('row, 'fig) event \<Rightarrow> bool" where
  "is_chart_call e =
     (case e of Visualize_barchart _ \<Rightarrow> True | Visualize_hierarchy \<Rightarrow> True
      | Visualize_heatmap \<Rightarrow> True | Visualize_topics \<Rightarrow> True | _ \<Rightarrow> False)"

definition is_fit_call :: "('row, 'fig) event \<Rightarrow> bool" where
  "is_fit_call e = (case e of Fit_transform _ _ \<Rightarrow> True | _ \<Rightarrow> False)"

definition is_button :: "('row, 'fig) event \<Rightarrow> bool" where
  "is_button e = (case e of St_button _ \<Rightarrow> True | _ \<Rightarrow> False)"

definition is_tab_event :: "('row, 'fig) event \<Rightarrow> bool" where
  "is_tab_event e =
     (case e of St_header _ \<Rightarrow> True | St_write _ \<Rightarrow> True | St_dataframe_csv _ \<Rightarrow> True
      | St_success _ \<Rightarrow> True | _ \<Rightarrow> False)"

subsection \<open>The four chart calls of a run\<close>

text \<open>
  What the chart methods of lines 174, 182, 190 and 198 return or raise, each with the
  name its handler puts into the warning; \<open>raised\<close> selects the calls that raised and
  \<open>drawn\<close> the figures of the calls that returned.
\<close>

definition chart_outcomes ::
  "widgets \<Rightarrow> ('row, 'fig) fitted \<Rightarrow> (py_str \<times> (py_str + 'fig)) list" where
  "chart_outcomes w m =
     [(py_of ''topic frequency chart'',
       visualize_barchart m (min (top_n_topics w) (int (length (get_topic_info m)) - 1))),
      (py_of ''hierarchy chart'', visualize_hierarchy m),
      (py_of ''heatmap'', visualize_heatmap m),
      (py_of ''topic words chart'', visualize_topics m)]"

fun raised :: "(py_str \<times> (py_str + 'fig)) list \<Rightarrow> (py_str \<times> py_str) list" where
  "raised [] = []"
| "raised ((name, Inl e) # cs) = (name, e) # raised cs"
| "raised ((name, Inr fig) # cs) = raised cs"

fun drawn :: "(py_str \<times> (py_str + 'fig)) list \<Rightarrow> 'fig list" where
  "drawn [] = []"
| "drawn ((name, Inl e) # cs) = drawn cs"
| "drawn ((name, Inr fig) # cs) = fig # drawn cs"

section \<open>A sample run\<close>

text \<open>
  Four documents typed into the text area, no file, the button pressed; the sidebar at
  its defaults except for twenty top topics. The sample library fits a model with twelve
  summary rows whose hierarchy chart raises; a second sample library fails to fit.
\<close>

definition sample_widgets :: widgets where
  "sample_widgets =
     \<lparr>n_neighbors_max = 5, n_components = 2, min_dist = 0, metric = Cosine,
      min_topic_size = 2, language = English, top_n_topics = 20, show_all_viz = True,
      user_input = py_of ''a'' @ [LF] @ py_of ''b'' @ [LF] @ py_of ''c'' @ [LF] @ py_of ''d'',
      uploaded_file = None, column_name = None, analyze_button = True\<rparr>"

definition sample_documents :: "py_str list" where
  "sample_documents = [[97], [98], [99], [100]]"

definition sample_fitted :: "(nat, nat) fitted" where
  "sample_fitted =
     \<lparr>get_topic_info = [0, 1, 2, 3, 4, 5, 6, 7, 8, 9, 10, 11],
      visualize_barchart = (\<lambda>n. Inr 1),
      visualize_hierarchy = Inl (py_of ''too few topics''),
      visualize_heatmap = Inr 3,
      visualize_topics = Inr 4\<rparr>"

definition sample_fit :: "(nat, nat) fit_transform" where
  "sample_fit b docs = Inr sample_fitted"

definition sample_fit_raises :: "(nat, nat) fit_transform" where
  "sample_fit_raises b docs = Inl (py_of ''k must be less than or equal to the number of training points'')"

section \<open>Facts about splitting and stripping\<close>

lemma spec_lines_nonempty: "spec_lines s \<noteq> []"
  by (simp add: spec_lines.simps [of s])

lemma spec_lines_Nil: "spec_lines [] = [[]]"
  by (simp add: spec_lines.simps [of "[]"])

lemma spec_lines_LF: "spec_lines (LF # cs) = [] # spec_lines cs"
  by (simp add: spec_lines.simps [of "LF # cs"])

lemma spec_lines_other:
  "c \<noteq> LF \<Longrightarrow> spec_lines (c # cs) = (c # hd (spec_lines cs)) # tl (spec_lines cs)"
  by (simp add: spec_lines.simps [of "c # cs"] spec_lines.simps [of cs])

lemma split_from_spec_lines:
  "split_from LF cur s = (cur @ hd (spec_lines s)) # tl (spec_lines s)"
proof (induction s arbitrary: cur)
  case Nil
  show ?case by (simp add: spec_lines_Nil)
next
  case (Cons c cs)
  show ?case
  proof (cases "c = LF")
    case True
    then show ?thesis by (simp add: spec_lines_LF Cons.IH spec_lines_nonempty)
  next
    case False
    then show ?thesis by (simp add: spec_lines_other Cons.IH)
  qed
qed

lemma py_split_spec_lines: "py_split s LF = spec_lines s"
  by (simp add: py_split_def split_from_spec_lines spec_lines_nonempty)

lemma strip_documents_spec: "strip_documents xs = spec_trim_nonempty xs"
  by (simp add: strip_documents_def spec_trim_nonempty_def filter_map o_def)

lemma last_dropWhile_nonempty:
  assumes "dropWhile P xs \<noteq> []"
  shows "last (dropWhile P xs) = last xs"
proof -
  have "last (takeWhile P xs @ dropWhile P xs) = last (dropWhile P xs)"
    using assms by (rule last_appendR)
  then show ?thesis by simp
qed

lemma strip_hd:
  assumes "strip s \<noteq> []"
  shows "\<not> isspace (hd (strip s))"
proof -
  define t where "t = dropWhile isspace s"
  define r where "r = dropWhile isspace (rev t)"
  have strip: "strip s = rev r" by (simp add: strip_def r_def t_def)
  with assms have r: "r \<noteq> []" by simp
  then have t: "t \<noteq> []" by (auto simp: r_def)
  have "hd (strip s) = last r" using r by (simp add: strip hd_rev)
  also have "\<dots> = last (rev t)" using r unfolding r_def by (rule last_dropWhile_nonempty)
  also have "\<dots> = hd t" using t by (simp add: last_rev)
  finally show ?thesis using hd_dropWhile [of isspace s] t by (simp add: t_def)
qed

lemma strip_last:
  assumes "strip s \<noteq> []"
  shows "\<not> isspace (last (strip s))"
proof -
  let ?r = "dropWhile isspace (rev (dropWhile isspace s))"
  from assms have r: "?r \<noteq> []" by (simp add: strip_def)
  have "last (strip s) = hd ?r" using r by (simp add: strip_def last_rev)
  then show ?thesis using hd_dropWhile [OF r] by simp
qed

lemma strip_fixed:
  assumes "d = [] \<or> (\<not> isspace (hd d) \<and> \<not> isspace (last d))"
  shows "strip d = d"
proof (cases "d = []")
  case True
  then show ?thesis by (simp add: strip_def)
next
  case False
  with assms have h: "\<not> isspace (hd d)" and l: "\<not> isspace (last d)" by simp_all
  from False h have "dropWhile isspace d = d" by (simp add: dropWhile_eq_self_iff)
  moreover from False l have "dropWhile isspace (rev d) = rev d"
    by (simp add: dropWhile_eq_self_iff hd_rev)
  ultimately show ?thesis by (simp add: strip_def)
qed

lemma strip_idem: "strip (strip s) = strip s"
  using strip_hd [of s] strip_last [of s] by (intro strip_fixed) blast

lemma strip_decomposition:
  "\<exists>l r. s = l @ strip s @ r \<and> list_all isspace l \<and> list_all isspace r"
proof -
  let ?t = "dropWhile isspace s"
  let ?l = "takeWhile isspace s"
  let ?r = "rev (takeWhile isspace (rev ?t))"
  have split: "takeWhile isspace (rev ?t) @ dropWhile isspace (rev ?t) = rev ?t"
    by (rule takeWhile_dropWhile_id)
  have "?t = rev (rev ?t)" by simp
  also have "\<dots> = rev (takeWhile isspace (rev ?t) @ dropWhile isspace (rev ?t))"
    by (simp only: split)
  also have "\<dots> = rev (dropWhile isspace (rev ?t)) @ ?r"
    by (rule rev_append)
  finally have "?t = strip s @ ?r" by (simp only: strip_def)
  moreover have "s = ?l @ ?t" by simp
  ultimately have "s = ?l @ strip s @ ?r" by simp
  moreover have "list_all isspace ?l" by (auto simp: list_all_iff dest: set_takeWhileD)
  moreover have "list_all isspace ?r" by (auto simp: list_all_iff dest: set_takeWhileD)
  ultimately show ?thesis by blast
qed

lemma in_strip_documents:
  assumes "d \<in> set (strip_documents xs)"
  shows "d \<noteq> [] \<and> strip d = d \<and> \<not> isspace (hd d) \<and> \<not> isspace (last d)"
proof -
  from assms obtain x where "d = strip x" and "strip x \<noteq> []"
    by (auto simp: strip_documents_def)
  then show ?thesis by (simp add: strip_idem strip_hd strip_last)
qed

lemma strip_documents_fixed:
  assumes "\<forall>d \<in> set ds. d \<noteq> [] \<and> strip d = d"
  shows "strip_documents ds = ds"
proof -
  from assms have "filter (\<lambda>doc. strip doc \<noteq> []) ds = ds" by (auto intro: filter_True)
  moreover from assms have "map strip ds = ds" by (simp add: map_idI)
  ultimately show ?thesis by (simp add: strip_documents_def)
qed

lemma strip_documents_idem: "strip_documents (strip_documents xs) = strip_documents xs"
  by (rule strip_documents_fixed) (simp add: in_strip_documents)

section \<open>Facts about the trace of a run\<close>

lemma tab1_trace:
  "trace (tab1 w s) = trace s @ [St_header (py_of ''Input Text''),
     St_write (py_of ''Enter your text data below. Each line will be treated as a separate document.'')]"
  by (simp add: tab1_def emit_def Let_def)

lemma tab1_documents:
  "documents (tab1 w s) =
     (if user_input w = [] then documents s
      else Some (strip_documents (py_split (user_input w) LF)))"
  by (simp add: tab1_def emit_def Let_def)

lemma tab1_source:
  "source (tab1 w s) = (if user_input w = [] then source s else Some (py_of ''manual''))"
  by (simp add: tab1_def emit_def Let_def)

lemma tab2_quiet:
  assumes "tab2 w s = Inr s'" and "list_all is_tab_event (trace s)"
  shows "list_all is_tab_event (trace s')"
  using assms
  by (auto simp: tab2_def emit_def Let_def is_tab_event_def split: option.splits if_splits)

lemma tab2_crash:
  assumes "tab2 w s = Inl out" and "list_all is_tab_event (trace s)"
  shows "\<exists>pre name. out = pre @ [Uncaught_KeyError name] \<and> list_all is_tab_event pre"
  using assms
  by (auto simp: tab2_def emit_def Let_def is_tab_event_def split: option.splits if_splits)

lemma tab1_quiet: "list_all is_tab_event (trace (tab1 w initial))"
  by (simp add: tab1_trace initial_def is_tab_event_def)

lemma tab_events_filters:
  assumes "list_all is_tab_event es"
  shows "filter is_warning es = []" and "filter is_error es = []"
    and "filter is_summary_table es = []" and "filter is_plotly_chart es = []"
    and "filter is_chart_call es = []" and "filter is_barchart_call es = []"
    and "filter is_fit_call es = []" and "filter is_button es = []"
  using assms
  by (auto simp: filter_empty_conv list_all_iff is_tab_event_def is_warning_def is_error_def
      is_summary_table_def is_plotly_chart_def is_chart_call_def is_barchart_call_def
      is_fit_call_def is_button_def split: event.splits)

lemma tab_events_no_fit:
  assumes "list_all is_tab_event es"
  shows "Fit_transform b d \<notin> set es"
  using assms by (auto simp: list_all_iff is_tab_event_def)

lemma visualizations_no_fit: "Fit_transform b d \<notin> set (visualizations w m)"
  by (auto simp: visualizations_def try_chart_def Let_def split: sum.splits)

lemma analysis_fit_call:
  assumes "Fit_transform b d \<in> set (analysis fit w docs)"
  shows "b = topic_model w docs \<and> d = docs"
  using assms visualizations_no_fit [of b d w]
  by (auto simp: analysis_def split: sum.splits)

lemma script_fit_call:
  assumes "Fit_transform b d \<in> set (script fit w)"
  shows "\<exists>s. tab2 w (tab1 w initial) = Inr s \<and> list_all is_tab_event (trace s)
           \<and> documents s = Some d \<and> d \<noteq> [] \<and> analyze_button w \<and> b = topic_model w d
           \<and> script fit w = trace s @ [St_markdown (py_of ''---''),
                 St_button (py_of ''Start Analysis'')] @ analysis fit w d"
proof (cases "tab2 w (tab1 w (initial :: ('a, 'b) state))")
  case (Inl out)
  with tab2_crash [OF Inl tab1_quiet] assms show ?thesis
    by (auto simp: script_def dest: tab_events_no_fit)
next
  case (Inr s)
  have quiet: "list_all is_tab_event (trace s)"
    using Inr tab1_quiet by (rule tab2_quiet)
  from assms Inr have "Fit_transform b d \<in> set (analysis_section fit w s)"
    by (simp add: script_def)
  with quiet have "\<exists>x xs. documents s = Some (x # xs) \<and> analyze_button w
      \<and> Fit_transform b d \<in> set (analysis fit w (x # xs))"
    by (auto simp: analysis_section_def no_documents_prompt_def
        split: option.splits list.splits if_splits dest: tab_events_no_fit)
  then obtain x xs where docs: "documents s = Some (x # xs)" and btn: "analyze_button w"
    and mem: "Fit_transform b d \<in> set (analysis fit w (x # xs))" by blast
  from mem have "b = topic_model w (x # xs)" and d: "d = x # xs"
    using analysis_fit_call by blast+
  with docs btn Inr quiet show ?thesis
    by (simp add: script_def analysis_section_def)
qed

lemma tabs_documents_stripped:
  assumes "tab2 w (tab1 w initial) = Inr s" and "documents s = Some docs"
  shows "\<exists>xs. docs = strip_documents xs"
  using assms
  by (auto simp: tab2_def tab1_def initial_def emit_def Let_def
      split: option.splits if_splits)

lemma analysis_raise:
  assumes "fit (topic_model w d) d = Inl e"
  shows "analysis fit w d =
     [St_header (py_of ''Step 1: Initialize BERTopic''),
      St_write (py_of ''Initializing the BERTopic model...''),
      St_header (py_of ''Step 2: Fit the Model''),
      St_write (py_of ''Fitting the BERTopic model to your data...''),
      Fit_transform (topic_model w d) d,
      St_error (py_of ''Error fitting model: '' @ e), St_stop]"
  using assms by (simp add: analysis_def)

lemma analysis_success:
  assumes "fit (topic_model w d) d = Inr m"
  shows "analysis fit w d =
     [St_header (py_of ''Step 1: Initialize BERTopic''),
      St_write (py_of ''Initializing the BERTopic model...''),
      St_header (py_of ''Step 2: Fit the Model''),
      St_write (py_of ''Fitting the BERTopic model to your data...''),
      Fit_transform (topic_model w d) d,
      St_header (py_of ''Step 3: Extracted Topics''),
      St_write (py_of ''The following topics were extracted:''),
      Get_topic_info,
      St_dataframe_topics (get_topic_info m),
      St_header (py_of ''Step 4: Visualizations'')] @
     visualizations w m @ [St_success (py_of ''BERTopic analysis complete!'')]"
  using assms by (simp add: analysis_def)


lemma visualizations_warnings:
  assumes "show_all_viz w"
  shows "filter is_warning (visualizations w m) =
     map (\<lambda>(name, e). St_warning (py_of ''Could not generate '' @ name @ py_of '': '' @ e))
       (raised (chart_outcomes w m))"
  using assms
  by (simp add: visualizations_def try_chart_def Let_def is_warning_def chart_outcomes_def
      split: sum.splits)

lemma visualizations_charts:
  assumes "show_all_viz w"
  shows "filter is_plotly_chart (visualizations w m) =
     map St_plotly_chart (drawn (chart_outcomes w m))"
  using assms
  by (simp add: visualizations_def try_chart_def Let_def is_plotly_chart_def chart_outcomes_def
      split: sum.splits)

lemma raised_drawn_length: "length (raised cs) + length (drawn cs) = length cs"
  by (induction cs rule: raised.induct) simp_all

text \<open>
  The UMAP configuration of every fit call of a run carries the random seed 42 and the
  initialization \<^verbatim>\<open>'random'\<close>.
\<close>

lemma fit_call_configuration:
  assumes "Fit_transform b d \<in> set (script fit w)"
  shows "umap_random_state (bt_umap_model b) = 42
     \<and> umap_init (bt_umap_model b) = py_of ''random''"
  using script_fit_call [OF assms] by (auto simp: topic_model_def umap_model_def)

section \<open>The sample run\<close>

lemma sample_collect:
  "strip_documents (py_split (user_input sample_widgets) LF) = sample_documents"
  by (simp add: sample_widgets_def sample_documents_def strip_documents_def py_split_def
      py_of_def LF_def strip_def isspace_def)

lemma sample_fields:
  "user_input sample_widgets \<noteq> []" "uploaded_file sample_widgets = None"
  "analyze_button sample_widgets" "show_all_viz sample_widgets"
  "top_n_topics sample_widgets = 20" "n_neighbors_max sample_widgets = 5"
  by (simp_all add: sample_widgets_def py_of_def)

lemma sample_reaches_fit:
  "Fit_transform (topic_model sample_widgets sample_documents) sample_documents
     \<in> set (script fit sample_widgets)"
  by (simp add: script_def tab1_def tab2_def emit_def initial_def Let_def sample_fields
      sample_collect analysis_section_def analysis_def sample_documents_def)

lemma sample_outcomes:
  "raised (chart_outcomes sample_widgets sample_fitted)
     = [(py_of ''hierarchy chart'', py_of ''too few topics'')]"
  "drawn (chart_outcomes sample_widgets sample_fitted) = [1, 3, 4]"
  by (simp_all add: chart_outcomes_def sample_fitted_def)

section \<open>The claims of the specification\<close>

text \<open>
  C1. The neighbour count of every UMAP configuration that a run hands to the fit is the
  count of line 136, and that count is the configured maximum clamped between 2 and the
  number of documents minus 2, the lower bound winning: it lies between 2 and
  \<open>max 2 (document count - 2)\<close> from four documents on, and it is 2 up to four
  documents. This holds for every configured maximum, in particular for the slider's
  range from 2 to 15.
\<close>

theorem neighbor_count_is_clamp:
  "(Fit_transform b docs \<in> set (script fit w) \<longrightarrow>
      umap_n_neighbors (bt_umap_model b) = umap_n_neighbors (umap_model w docs))
   \<and> umap_n_neighbors (umap_model w docs)
       = spec_clamp (n_neighbors_max w) 2 (int (length docs) - 2)
   \<and> (4 \<le> length docs \<longrightarrow>
        2 \<le> umap_n_neighbors (umap_model w docs)
        \<and> umap_n_neighbors (umap_model w docs) \<le> max 2 (int (length docs) - 2))
   \<and> (length docs \<le> 4 \<longrightarrow> umap_n_neighbors (umap_model w docs) = 2)"
proof -
  have passed: "Fit_transform b docs \<in> set (script fit w) \<longrightarrow>
      umap_n_neighbors (bt_umap_model b) = umap_n_neighbors (umap_model w docs)"
    using script_fit_call [of b docs fit w] by (auto simp: topic_model_def)
  have clamp: "umap_n_neighbors (umap_model w docs)
       = spec_clamp (n_neighbors_max w) 2 (int (length docs) - 2)"
    by (simp add: umap_model_def n_neighbors_def spec_clamp_def)
  have many: "4 \<le> length docs \<longrightarrow>
        2 \<le> umap_n_neighbors (umap_model w docs)
        \<and> umap_n_neighbors (umap_model w docs) \<le> max 2 (int (length docs) - 2)"
    by (simp add: umap_model_def n_neighbors_def)
  have few: "length docs \<le> 4 \<longrightarrow> umap_n_neighbors (umap_model w docs) = 2"
    by (simp add: umap_model_def n_neighbors_def)
  from passed clamp many few show ?thesis by (intro conjI)
qed

theorem neighbor_count_is_clamp_witness:
  "Fit_transform (topic_model sample_widgets sample_documents) sample_documents
     \<in> set (script sample_fit sample_widgets)
   \<and> 4 \<le> length sample_documents \<and> length sample_documents \<le> 4
   \<and> umap_n_neighbors (bt_umap_model (topic_model sample_widgets sample_documents)) = 2
   \<and> spec_clamp (n_neighbors_max sample_widgets) 2 (int (length sample_documents) - 2) = 2"
  using neighbor_count_is_clamp [of "topic_model sample_widgets sample_documents"
      sample_documents sample_fit sample_widgets]
    sample_reaches_fit [of sample_fit]
  by (simp add: sample_documents_def)

text \<open>
  C2. In a run whose \<^verbatim>\<open>fit_transform\<close> call raises, the run ends with the call, one
  \<^verbatim>\<open>st.error\<close> message with the text of the exception and \<^verbatim>\<open>st.stop()\<close>: that message is
  the only error shown, no topic summary table is displayed, no chart method is called,
  no chart is drawn and no warning is shown.
\<close>

theorem fit_failure_halts:
  fixes fit :: "('row, 'fig) fit_transform"
  assumes "Fit_transform b d \<in> set (script fit w)" and "fit b d = Inl e"
  shows "(\<exists>pre. script fit w
            = pre @ [Fit_transform b d, St_error (py_of ''Error fitting model: '' @ e), St_stop])
     \<and> filter is_error (script fit w) = [St_error (py_of ''Error fitting model: '' @ e)]
     \<and> filter is_summary_table (script fit w) = []
     \<and> filter is_chart_call (script fit w) = []
     \<and> filter is_plotly_chart (script fit w) = []
     \<and> filter is_warning (script fit w) = []"
proof -
  from script_fit_call [OF assms(1)] obtain s :: "('row, 'fig) state" where
    quiet: "list_all is_tab_event (trace s)" and b: "b = topic_model w d"
    and run: "script fit w = trace s @ [St_markdown (py_of ''---''),
                 St_button (py_of ''Start Analysis'')] @ analysis fit w d"
    by blast
  from assms(2) b have raise: "fit (topic_model w d) d = Inl e" by simp
  note an = analysis_raise [of fit w d e, OF raise]
  have eq: "script fit w = (trace s @ [St_markdown (py_of ''---''), St_button (py_of ''Start Analysis''),
      St_header (py_of ''Step 1: Initialize BERTopic''),
      St_write (py_of ''Initializing the BERTopic model...''),
      St_header (py_of ''Step 2: Fit the Model''),
      St_write (py_of ''Fitting the BERTopic model to your data...'')])
      @ [Fit_transform b d, St_error (py_of ''Error fitting model: '' @ e), St_stop]"
    by (simp add: run an b)
  have ex: "\<exists>pre. script fit w
            = pre @ [Fit_transform b d, St_error (py_of ''Error fitting model: '' @ e), St_stop]"
    by (rule exI, rule eq)
  have err: "filter is_error (script fit w) = [St_error (py_of ''Error fitting model: '' @ e)]"
    by (simp add: run an tab_events_filters [OF quiet] is_error_def)
  have tbl: "filter is_summary_table (script fit w) = []"
    by (simp add: run an tab_events_filters [OF quiet] is_summary_table_def)
  have calls: "filter is_chart_call (script fit w) = []"
    by (simp add: run an tab_events_filters [OF quiet] is_chart_call_def)
  have charts: "filter is_plotly_chart (script fit w) = []"
    by (simp add: run an tab_events_filters [OF quiet] is_plotly_chart_def)
  have warn: "filter is_warning (script fit w) = []"
    by (simp add: run an tab_events_filters [OF quiet] is_warning_def)
  from ex err tbl calls charts warn show ?thesis by (intro conjI)
qed

theorem fit_failure_halts_witness:
  "Fit_transform (topic_model sample_widgets sample_documents) sample_documents
     \<in> set (script sample_fit_raises sample_widgets)
   \<and> sample_fit_raises (topic_model sample_widgets sample_documents) sample_documents
       = Inl (py_of ''k must be less than or equal to the number of training points'')
   \<and> filter is_error (script sample_fit_raises sample_widgets)
       = [St_error (py_of ''Error fitting model: ''
            @ py_of ''k must be less than or equal to the number of training points'')]
   \<and> filter is_summary_table (script sample_fit_raises sample_widgets) = []
   \<and> filter is_chart_call (script sample_fit_raises sample_widgets) = []
   \<and> filter is_warning (script sample_fit_raises sample_widgets) = []"
  using fit_failure_halts [of "topic_model sample_widgets sample_documents" sample_documents
      sample_fit_raises sample_widgets
      "py_of ''k must be less than or equal to the number of training points''"]
    sample_reaches_fit [of sample_fit_raises]
  by (simp add: sample_fit_raises_def)

text \<open>
  C3. In a run with a successful fit and all visualizations enabled, if exactly one of
  the four chart methods raises, the topic summary table is displayed, the figures of the
  other three methods are drawn (in program order), and the only warning of the run is
  the one that names the failed chart and carries the text of its exception; no error is
  shown and the run reaches its final success message.
\<close>

theorem one_chart_failure_isolated:
  fixes fit :: "('row, 'fig) fit_transform"
  assumes "Fit_transform b d \<in> set (script fit w)" and "fit b d = Inr m"
    and "show_all_viz w" and "length (raised (chart_outcomes w m)) = 1"
  shows "St_dataframe_topics (get_topic_info m) \<in> set (script fit w)
     \<and> filter is_plotly_chart (script fit w) = map St_plotly_chart (drawn (chart_outcomes w m))
     \<and> length (drawn (chart_outcomes w m)) = 3
     \<and> (\<exists>name e. raised (chart_outcomes w m) = [(name, e)]
          \<and> filter is_warning (script fit w)
              = [St_warning (py_of ''Could not generate '' @ name @ py_of '': '' @ e)])
     \<and> filter is_error (script fit w) = []
     \<and> last (script fit w) = St_success (py_of ''BERTopic analysis complete!'')"
proof -
  from script_fit_call [OF assms(1)] obtain s :: "('row, 'fig) state" where
    quiet: "list_all is_tab_event (trace s)" and b: "b = topic_model w d"
    and run: "script fit w = trace s @ [St_markdown (py_of ''---''),
                 St_button (py_of ''Start Analysis'')] @ analysis fit w d"
    by blast
  from assms(2) b have ok: "fit (topic_model w d) d = Inr m" by simp
  note an = analysis_success [of fit w d m, OF ok]
  have table: "St_dataframe_topics (get_topic_info m) \<in> set (script fit w)"
    by (simp add: run an)
  have charts: "filter is_plotly_chart (script fit w)
      = map St_plotly_chart (drawn (chart_outcomes w m))"
    by (simp add: run an tab_events_filters [OF quiet] visualizations_charts [OF assms(3)]
        is_plotly_chart_def)
  have "length (raised (chart_outcomes w m)) + length (drawn (chart_outcomes w m))
      = length (chart_outcomes w m)"
    by (rule raised_drawn_length)
  with assms(4) have three: "length (drawn (chart_outcomes w m)) = 3"
    by (simp add: chart_outcomes_def)
  from assms(4) obtain p where "raised (chart_outcomes w m) = [p]"
    by (cases "raised (chart_outcomes w m)") simp_all
  then obtain name e where one: "raised (chart_outcomes w m) = [(name, e)]"
    by (cases p) simp
  have "filter is_warning (script fit w)
      = map (\<lambda>(name, e). St_warning (py_of ''Could not generate '' @ name @ py_of '': '' @ e))
          (raised (chart_outcomes w m))"
    by (simp add: run an tab_events_filters [OF quiet] visualizations_warnings [OF assms(3)]
        is_warning_def)
  with one have warn: "\<exists>name e. raised (chart_outcomes w m) = [(name, e)]
          \<and> filter is_warning (script fit w)
              = [St_warning (py_of ''Could not generate '' @ name @ py_of '': '' @ e)]"
    by simp
  have vis: "filter is_error (visualizations w m) = []"
    by (simp add: visualizations_def try_chart_def Let_def is_error_def split: sum.splits)
  have noerr: "filter is_error (script fit w) = []"
    by (simp add: run an tab_events_filters [OF quiet] vis is_error_def)
  have fin: "last (script fit w) = St_success (py_of ''BERTopic analysis complete!'')"
    by (simp add: run an)
  from table charts three warn noerr fin show ?thesis by (intro conjI)
qed

theorem one_chart_failure_isolated_witness:
  "Fit_transform (topic_model sample_widgets sample_documents) sample_documents
     \<in> set (script sample_fit sample_widgets)
   \<and> sample_fit (topic_model sample_widgets sample_documents) sample_documents
       = Inr sample_fitted
   \<and> show_all_viz sample_widgets
   \<and> length (raised (chart_outcomes sample_widgets sample_fitted)) = 1
   \<and> St_dataframe_topics (get_topic_info sample_fitted) \<in> set (script sample_fit sample_widgets)
   \<and> filter is_plotly_chart (script sample_fit sample_widgets)
       = [St_plotly_chart 1, St_plotly_chart 3, St_plotly_chart 4]
   \<and> filter is_warning (script sample_fit sample_widgets)
       = [St_warning (py_of ''Could not generate '' @ py_of ''hierarchy chart'' @ py_of '': ''
            @ py_of ''too few topics'')]"
  using one_chart_failure_isolated [of "topic_model sample_widgets sample_documents"
      sample_documents sample_fit sample_widgets sample_fitted]
    sample_reaches_fit [of sample_fit]
  by (simp add: sample_fit_def sample_fields sample_outcomes)



text \<open>
  C5. For every non-empty text of the text area, the documents of the manual path are the
  lines of the text, each trimmed, without the ones that are empty after trimming, in line
  order. For the empty text the guard of line 93 leaves the documents as they were
  (\<^verbatim>\<open>None\<close> at that point of the script), and the list of the specification is empty.
\<close>

theorem manual_documents:
  "(user_input w \<noteq> [] \<longrightarrow>
      documents (tab1 w s) = Some (spec_manual_documents (user_input w))
      \<and> source (tab1 w s) = Some (py_of ''manual''))
   \<and> (user_input w = [] \<longrightarrow>
      documents (tab1 w s) = documents s \<and> spec_manual_documents (user_input w) = [])"
  by (simp add: tab1_documents tab1_source spec_manual_documents_def strip_documents_spec
      py_split_spec_lines spec_lines_Nil spec_trim_nonempty_def strip_def)

theorem manual_documents_witness:
  "user_input (sample_widgets\<lparr>user_input :=
       py_of ''a'' @ [LF, LF] @ py_of ''  b  '' @ [LF] @ py_of ''c''\<rparr>) \<noteq> []
   \<and> documents (tab1 (sample_widgets\<lparr>user_input :=
       py_of ''a'' @ [LF, LF] @ py_of ''  b  '' @ [LF] @ py_of ''c''\<rparr>)
       (initial :: (nat, nat) state)) = Some [py_of ''a'', py_of ''b'', py_of ''c'']
   \<and> spec_manual_documents (py_of ''a'' @ [LF, LF] @ py_of ''  b  '' @ [LF] @ py_of ''c'')
       = [py_of ''a'', py_of ''b'', py_of ''c'']
   \<and> user_input (sample_widgets\<lparr>user_input := []\<rparr>) = []
   \<and> documents (tab1 (sample_widgets\<lparr>user_input := []\<rparr>) (initial :: (nat, nat) state)) = None
   \<and> spec_manual_documents [] = []"
proof -
  let ?w = "sample_widgets\<lparr>user_input :=
       py_of ''a'' @ [LF, LF] @ py_of ''  b  '' @ [LF] @ py_of ''c''\<rparr>"
  have run: "documents (tab1 ?w (initial :: (nat, nat) state))
      = Some [py_of ''a'', py_of ''b'', py_of ''c'']"
    by (simp add: tab1_def emit_def Let_def strip_documents_def py_split_def
      py_of_def LF_def strip_def isspace_def)
  have ne: "user_input ?w \<noteq> []" by (simp add: py_of_def)
  from manual_documents [of ?w "initial :: (nat, nat) state"] ne run
  have "spec_manual_documents (py_of ''a'' @ [LF, LF] @ py_of ''  b  '' @ [LF] @ py_of ''c'')
       = [py_of ''a'', py_of ''b'', py_of ''c'']" by simp
  moreover from manual_documents [of "sample_widgets\<lparr>user_input := []\<rparr>"
      "initial :: (nat, nat) state"]
  have "documents (tab1 (sample_widgets\<lparr>user_input := []\<rparr>) (initial :: (nat, nat) state)) = None
    \<and> spec_manual_documents [] = []"
    by (simp add: initial_def)
  ultimately show ?thesis using ne run by simp
qed



text \<open>
  C7. When the tabs leave no documents (\<^verbatim>\<open>None\<close> or the empty list), the run shows the
  collected tab output and then one prompt, an \<^verbatim>\<open>st.info\<close> or an \<^verbatim>\<open>st.warning\<close> message, and
  nothing else: the button is not offered, \<^verbatim>\<open>fit_transform\<close> is not called and no error is
  shown.
\<close>

theorem empty_documents_gate:
  fixes fit :: "('row, 'fig) fit_transform"
  assumes "tab2 w (tab1 w initial) = Inr s" and "documents s = None \<or> documents s = Some []"
  shows "script fit w = trace s @ [no_documents_prompt (source s)]
     \<and> (\<exists>msg. no_documents_prompt (source s) = (St_info msg :: ('row, 'fig) event)
           \<or> no_documents_prompt (source s) = (St_warning msg :: ('row, 'fig) event))
     \<and> filter is_button (script fit w) = []
     \<and> filter is_fit_call (script fit w) = []
     \<and> filter is_error (script fit w) = []"
proof -
  have quiet: "list_all is_tab_event (trace s)"
    using assms(1) tab1_quiet by (rule tab2_quiet)
  from assms have run: "script fit w = trace s @ [no_documents_prompt (source s)]"
    by (auto simp: script_def analysis_section_def)
  have prompt: "\<exists>msg. no_documents_prompt (source s) = (St_info msg :: ('row, 'fig) event)
           \<or> no_documents_prompt (source s) = (St_warning msg :: ('row, 'fig) event)"
    by (simp add: no_documents_prompt_def)
  have "filter is_button (script fit w) = []"
    by (simp add: run tab_events_filters [OF quiet] no_documents_prompt_def is_button_def)
  moreover have "filter is_fit_call (script fit w) = []"
    by (simp add: run tab_events_filters [OF quiet] no_documents_prompt_def is_fit_call_def)
  moreover have "filter is_error (script fit w) = []"
    by (simp add: run tab_events_filters [OF quiet] no_documents_prompt_def is_error_def)
  ultimately show ?thesis using run prompt by blast
qed

theorem empty_documents_gate_witness:
  "tab2 (sample_widgets\<lparr>user_input := [32, LF, 32]\<rparr>)
      (tab1 (sample_widgets\<lparr>user_input := [32, LF, 32]\<rparr>) initial)
     = Inr (emit [St_header (py_of ''Upload CSV File'')]
         (tab1 (sample_widgets\<lparr>user_input := [32, LF, 32]\<rparr>) (initial :: (nat, nat) state)))
   \<and> documents (emit [St_header (py_of ''Upload CSV File'')]
         (tab1 (sample_widgets\<lparr>user_input := [32, LF, 32]\<rparr>) (initial :: (nat, nat) state)))
       = Some []
   \<and> last (script sample_fit (sample_widgets\<lparr>user_input := [32, LF, 32]\<rparr>))
       = St_warning (py_of
        ''Please enter at least one valid document (minimum 3-5 recommended for better results).'')
   \<and> filter is_button (script sample_fit (sample_widgets\<lparr>user_input := [32, LF, 32]\<rparr>)) = []
   \<and> filter is_fit_call (script sample_fit (sample_widgets\<lparr>user_input := [32, LF, 32]\<rparr>)) = []"
proof -
  let ?w = "sample_widgets\<lparr>user_input := [32, LF, 32]\<rparr>"
  let ?s = "emit [St_header (py_of ''Upload CSV File'')] (tab1 ?w (initial :: (nat, nat) state))"
  have tabs: "tab2 ?w (tab1 ?w initial) = Inr ?s"
    by (simp add: tab2_def Let_def sample_fields)
  have docs: "documents ?s = Some []"
    by (simp add: emit_def tab1_def Let_def strip_documents_def py_split_def LF_def strip_def
        isspace_def)
  have src: "source ?s = Some (py_of ''manual'')"
    by (simp add: emit_def tab1_def Let_def)
  note gate = empty_documents_gate [of ?w ?s sample_fit, OF tabs disjI2 [OF docs]]
  note run = gate [THEN conjunct1]
  note button = gate [THEN conjunct2, THEN conjunct2, THEN conjunct1]
  note fit = gate [THEN conjunct2, THEN conjunct2, THEN conjunct2, THEN conjunct1]
  have "last (script sample_fit ?w) = St_warning (py_of
        ''Please enter at least one valid document (minimum 3-5 recommended for better results).'')"
    by (simp add: run src no_documents_prompt_def)
  with tabs docs button fit show ?thesis by (intro conjI)
qed

text \<open>
  C9. For a configured maximum in the slider's range from 2 to 15, the neighbour count
  of the UMAP configuration never exceeds the configured maximum, lies between 2 and 15,
  and equals the configured maximum whenever there are at least that many documents
  plus 2.
\<close>

theorem neighbor_count_within_slider:
  assumes "2 \<le> n_neighbors_max w" and "n_neighbors_max w \<le> 15"
  shows "umap_n_neighbors (umap_model w docs) \<le> n_neighbors_max w
     \<and> 2 \<le> umap_n_neighbors (umap_model w docs)
     \<and> umap_n_neighbors (umap_model w docs) \<le> 15
     \<and> (n_neighbors_max w + 2 \<le> int (length docs) \<longrightarrow>
          umap_n_neighbors (umap_model w docs) = n_neighbors_max w)"
  using assms by (simp add: umap_model_def n_neighbors_def)

theorem neighbor_count_within_slider_witness:
  "2 \<le> n_neighbors_max sample_widgets \<and> n_neighbors_max sample_widgets \<le> 15
   \<and> n_neighbors_max sample_widgets + 2
        \<le> int (length (sample_documents @ [[101], [102], [103]]))
   \<and> umap_n_neighbors (umap_model sample_widgets (sample_documents @ [[101], [102], [103]])) = 5"
  using neighbor_count_within_slider [of sample_widgets
      "sample_documents @ [[101], [102], [103]]"]
  by (simp add: sample_fields sample_documents_def)

text \<open>
  C10. Trimming and dropping the blank documents is idempotent; every document it
  returns is non-empty and has a character that is not whitespace; and the documents of
  every \<^verbatim>\<open>fit_transform\<close> call of a run are a fixed point of it with the same property.
\<close>

theorem strip_documents_idempotent:
  fixes fit :: "('row, 'fig) fit_transform"
  shows "strip_documents (strip_documents xs) = strip_documents xs
   \<and> (\<forall>d \<in> set (strip_documents xs). d \<noteq> [] \<and> (\<exists>c \<in> set d. \<not> isspace c))
   \<and> (Fit_transform b docs \<in> set (script fit w) \<longrightarrow>
        strip_documents docs = docs
        \<and> (\<forall>d \<in> set docs. d \<noteq> [] \<and> (\<exists>c \<in> set d. \<not> isspace c)))"
proof -
  have entries: "\<forall>d \<in> set (strip_documents ys). d \<noteq> [] \<and> (\<exists>c \<in> set d. \<not> isspace c)" for ys
  proof
    fix d assume "d \<in> set (strip_documents ys)"
    then have "d \<noteq> []" and "\<not> isspace (hd d)" using in_strip_documents by blast+
    then show "d \<noteq> [] \<and> (\<exists>c \<in> set d. \<not> isspace c)" using hd_in_set by blast
  qed
  have "strip_documents docs = docs
        \<and> (\<forall>d \<in> set docs. d \<noteq> [] \<and> (\<exists>c \<in> set d. \<not> isspace c))"
    if "Fit_transform b docs \<in> set (script fit w)"
  proof -
    from script_fit_call [OF that] obtain s :: "('row, 'fig) state" where
      "tab2 w (tab1 w initial) = Inr s" and "documents s = Some docs" by blast
    then obtain ys where "docs = strip_documents ys"
      using tabs_documents_stripped by blast
    then show ?thesis using entries [of ys] by (simp add: strip_documents_idem)
  qed
  with entries [of xs] show ?thesis by (simp add: strip_documents_idem)
qed

theorem strip_documents_idempotent_witness:
  "Fit_transform (topic_model sample_widgets sample_documents) sample_documents
     \<in> set (script sample_fit sample_widgets)
   \<and> strip_documents sample_documents = sample_documents
   \<and> strip_documents [[32, 97, 32], [32], []] = [[97]]
   \<and> strip_documents (strip_documents [[32, 97, 32], [32], []]) = [[97]]
   \<and> [] \<notin> set (strip_documents [[32, 97, 32], [32], []])"
proof -
  have ev: "strip_documents [[32, 97, 32], [32], []] = [[97]]"
    by (simp add: strip_documents_def strip_def isspace_def)
  from strip_documents_idempotent [of "[[32, 97, 32], [32], []]"
      "topic_model sample_widgets sample_documents" sample_documents sample_fit sample_widgets]
    sample_reaches_fit [of sample_fit]
  show ?thesis by (simp add: ev)
qed

end
